theory Spec2Isabelle
  imports Complex_Main "HOL-Library.Sublist"
begin

section \<open>The IoT device monitoring page (src/IoTDevices.js)\<close>

text \<open>
  The page is a React component. Its state hooks are the fields of one record, every
  setter call of the source is a field update, and each asynchronous function is the
  function that maps the state found when its awaited promise settles to the state it
  leaves. JavaScript numbers are taken as exact reals (no rounding, no NaN); strings
  are lists of code units.
\<close>

subsection \<open>The heatmap colour scale: \<open>getColor\<close>\<close>

text \<open>
  \<open>getColor\<close> returns the CSS text \<open>rgba(r, g, b, a)\<close>; the model keeps the four
  numbers the template interpolates, in the template's order.
\<close>

datatype rgba = RGBA (red: real) (green: real) (blue: real) (alpha: real)

definition getColor :: "real \<Rightarrow> rgba" where
  "getColor v =
     (if v = 0 then RGBA 0 0 0 0
      else if v < 10 then RGBA 0 0 255 (v / 20)
      else if v < 30 then RGBA 0 (255 - (v - 10) * 8) 255 0.5
      else if v < 60 then RGBA ((v - 30) * 8) 255 (255 - (v - 30) * 8) 0.6
      else if v < 80 then RGBA 255 (255 - (v - 60) * 12) 0 0.7
      else RGBA 255 0 0 0.8)"

subsection \<open>Data of the page\<close>

text \<open>A catalog entry of \<open>GET /api/devices\<close>.\<close>

record device =
  client_id :: string
  name :: string
  device_type :: string
  status :: string

text \<open>
  A date is the time value of \<open>new Date(x)\<close> in epoch milliseconds, \<open>None\<close> for an
  Invalid Date. \<open>new Date().toISOString()\<close> read at clock value \<open>t\<close> is a text that
  \<open>new Date\<close> parses back to \<open>t\<close>, so a locally stamped record carries \<open>Some t\<close>.
\<close>

type_synonym jsdate = "int option"

datatype jsvalue = Str string | Num real

text \<open>The \<open>status\<close> object of a telemetry sample; an absent number is \<open>None\<close>.\<close>

record device_status =
  under_attack :: bool
  attack_duration :: "real option"
  battery_level :: "real option"
  connection_quality :: "real option"

record sample =
  device_id :: string
  session_id :: string
  timestamp :: jsdate
  metrics :: "(string \<times> real) list option"
  status :: "device_status option"

record alert =
  timestamp :: jsdate
  event_type :: string
  details :: "(string \<times> jsvalue) list"
  severity :: string

text \<open>The state hooks of \<open>IoTDevices\<close>. A selection is \<open>null\<close> (\<open>None\<close>) or a string.\<close>

record state =
  devices :: "device list"
  selectedDevice :: "string option"
  deviceData :: "sample list"
  securityAlerts :: "alert list"
  loading :: bool
  error :: "string option"
  refreshInterval :: nat
  isRefreshing :: bool

text \<open>
  How an awaited promise settles. A fulfilled API promise carries \<open>null\<close>/\<open>undefined\<close>
  (reading a property of it throws) or an object, of which the page reads one list
  property (\<open>data\<close>, \<open>alerts\<close>): \<open>None\<close> when the property is absent or falsy.
\<close>

datatype 'a body = Nullish | Object "'a list option"

datatype 'a settled = Rejected | Resolved "'a body"

text \<open>
  The catalog request: \<open>fetchWithAuth\<close> rejects, or gives a response with its \<open>ok\<close> flag
  and, from \<open>response.json()\<close>, the \<open>devices\<close> array (\<open>None\<close> when the body does not
  decode or has no such array, so that \<open>data.devices.filter\<close> throws).
\<close>

datatype catalog_response = FetchRejected | Response bool "device list option"

subsection \<open>Catalog refresh: \<open>fetchDevices\<close>\<close>

text \<open>\<open>String.prototype.includes\<close>: the second text occurs contiguously in the first.\<close>

fun str_includes :: "string \<Rightarrow> string \<Rightarrow> bool" where
  "str_includes [] sub = (sub = [])"
| "str_includes (c # cs) sub = (prefix sub (c # cs) \<or> str_includes cs sub)"

text \<open>The callback of \<open>data.devices.filter\<close>.\<close>

definition iotDevices :: "device list \<Rightarrow> device list" where
  "iotDevices raw =
     filter (\<lambda>device.
        device_type device = ''mouse'' \<or>
        device_type device = ''keyboard'' \<or>
        device_type device = ''headset'' \<or>
        device_type device = ''mouse_sensor'' \<or>
        device_type device = ''keyboard_sensor'' \<or>
        device_type device = ''headset_sensor'') raw"

text \<open>The callback of \<open>iotDevices.map\<close>: the first branch whose test holds returns.\<close>

definition renameDevice :: "device \<Rightarrow> device" where
  "renameDevice device =
     (if device_type device = ''mouse'' \<or> str_includes (name device) ''Mouse'' then
        device\<lparr>name := (if str_includes (name device) ''Sensor'' then name device
                         else name device @ '' Sensor''),
               device_type := (if device_type device = ''mouse'' then ''mouse_sensor''
                               else device_type device)\<rparr>
      else if device_type device = ''keyboard'' \<or> str_includes (name device) ''Keyboard'' then
        device\<lparr>name := (if str_includes (name device) ''Sensor'' then name device
                         else name device @ '' Sensor''),
               device_type := (if device_type device = ''keyboard'' then ''keyboard_sensor''
                               else device_type device)\<rparr>
      else if device_type device = ''headset'' \<or> str_includes (name device) ''Headset'' then
        device\<lparr>name := (if str_includes (name device) ''Sensor'' then name device
                         else name device @ '' Sensor''),
               device_type := (if device_type device = ''headset'' then ''headset_sensor''
                               else device_type device)\<rparr>
      else device)"

text \<open>
  The name each of the three branches returns, \<open>device.name.includes('Sensor') ?
  device.name : `${device.name} Sensor`\<close>, as a function of its own for the proofs.
\<close>

definition sensorName :: "string \<Rightarrow> string" where
  "sensorName n = (if str_includes n ''Sensor'' then n else n @ '' Sensor'')"

definition renamedDevices :: "device list \<Rightarrow> device list" where
  "renamedDevices raw = map renameDevice (iotDevices raw)"

definition fallbackDevices :: "device list" where
  "fallbackDevices =
     [\<lparr>client_id = ''mouse-001'', name = ''Gaming Mouse Sensor'',
       device_type = ''mouse_sensor'', status = ''active''\<rparr>,
      \<lparr>client_id = ''keyboard-001'', name = ''Gaming Keyboard Sensor'',
       device_type = ''keyboard_sensor'', status = ''active''\<rparr>]"

text \<open>\<open>!selectedDevice\<close>: \<open>null\<close> and the empty string are falsy.\<close>

definition falsy :: "string option \<Rightarrow> bool" where
  "falsy sel = (sel = None \<or> sel = Some [])"

text \<open>
  \<open>fetchDevices\<close> from the moment its request settles. \<open>sel\<close> is the \<open>selectedDevice\<close>
  its closure captured: the effect that defines \<open>fetchDevices\<close> is run again whenever the
  selection changes, so this is the selection at the time the request was issued. The
  \<open>try\<close> block ends in the \<open>catch\<close> block when the request is rejected, the status is not
  ok or the body has no device array; \<open>finally\<close> clears \<open>loading\<close> on both paths.
\<close>

definition fetchDevices :: "string option \<Rightarrow> catalog_response \<Rightarrow> state \<Rightarrow> state" where
  "fetchDevices sel r s =
     (case r of
        Response True (Some raw) \<Rightarrow>
          (case renamedDevices raw of
             [] \<Rightarrow> s\<lparr>devices := [], loading := False\<rparr>
           | first # rest \<Rightarrow>
               if falsy sel
               then s\<lparr>devices := first # rest, selectedDevice := Some (client_id first),
                      loading := False\<rparr>
               else s\<lparr>devices := first # rest, loading := False\<rparr>)
      | _ \<Rightarrow>
          if falsy sel
          then s\<lparr>error := Some ''Failed to load devices. Please try again.'',
                 devices := fallbackDevices,
                 selectedDevice := Some (client_id (hd fallbackDevices)),
                 loading := False\<rparr>
          else s\<lparr>error := Some ''Failed to load devices. Please try again.'',
                 devices := fallbackDevices, loading := False\<rparr>)"

text \<open>The device selector's \<open>onChange\<close>.\<close>

definition selectDevice :: "string \<Rightarrow> state \<Rightarrow> state" where
  "selectDevice v s = s\<lparr>selectedDevice := Some v\<rparr>"

subsection \<open>The data cycle: \<open>fetchDeviceData\<close> and \<open>fetchSecurityAlerts\<close>\<close>

text \<open>
  Both take the device id the cycle was started for, and run from the moment the promise
  of the API helper (\<open>getIoTDeviceData\<close>, \<open>getDeviceSecurityAlerts\<close>; not part of the
  sources, so its outcome is a parameter) settles, on the state found then. \<open>now\<close> is the
  clock read by \<open>new Date()\<close> in the \<open>catch\<close> block.
\<close>

definition fallbackSample :: "string \<Rightarrow> int \<Rightarrow> sample" where
  "fallbackSample deviceId now =
     \<lparr>device_id = deviceId,
      session_id = ''fallback-session'',
      timestamp = Some now,
      metrics = Some [(''clicks_per_second'', 4), (''movements_count'', 120),
                      (''dpi'', 16000), (''polling_rate'', 1000),
                      (''avg_click_distance'', 42.5), (''button_count'', 8)],
      status = Some \<lparr>under_attack = False, attack_duration = Some 0,
                      battery_level = Some 85, connection_quality = Some 95\<rparr>\<rparr>"

definition fetchDeviceData :: "string \<Rightarrow> int \<Rightarrow> sample settled \<Rightarrow> state \<Rightarrow> state" where
  "fetchDeviceData deviceId now r s =
     (case r of
        Resolved (Object (Some dat)) \<Rightarrow> s\<lparr>deviceData := dat\<rparr>
      | Resolved (Object None) \<Rightarrow> s\<lparr>deviceData := []\<rparr>
      | _ \<Rightarrow> s\<lparr>deviceData := [fallbackSample deviceId now]\<rparr>)"

definition fallbackAlert :: "int \<Rightarrow> alert" where
  "fallbackAlert now =
     \<lparr>timestamp = Some now,
      event_type = ''attack_detected'',
      details = [(''attack_type'', Str ''ping_flood''), (''intensity'', Num 72),
                 (''threshold'', Num 50)],
      severity = ''critical''\<rparr>"

definition fetchSecurityAlerts :: "string \<Rightarrow> int \<Rightarrow> alert settled \<Rightarrow> state \<Rightarrow> state" where
  "fetchSecurityAlerts deviceId now r s =
     (case r of
        Resolved (Object (Some alerts)) \<Rightarrow> s\<lparr>securityAlerts := alerts\<rparr>
      | Resolved (Object None) \<Rightarrow> s\<lparr>securityAlerts := []\<rparr>
      | _ \<Rightarrow> s\<lparr>securityAlerts := [fallbackAlert now]\<rparr>)"

text \<open>The outcomes on which the \<open>try\<close> block of either function throws.\<close>

fun throws :: "'a settled \<Rightarrow> bool" where
  "throws Rejected = True"
| "throws (Resolved Nullish) = True"
| "throws (Resolved (Object _)) = False"

subsection \<open>The attack verdict: \<open>renderDeviceStatus\<close>\<close>

definition getMostRecentData :: "state \<Rightarrow> sample option" where
  "getMostRecentData s =
     (if deviceData s = [] then None else Some (last (deviceData s)))"

definition getDeviceStatus :: "state \<Rightarrow> device_status" where
  "getDeviceStatus s =
     (case getMostRecentData s of
        None \<Rightarrow> \<lparr>under_attack = False, attack_duration = None,
                  battery_level = None, connection_quality = None\<rparr>
      | Some recent \<Rightarrow>
          (case sample.status recent of
             None \<Rightarrow> \<lparr>under_attack = False, attack_duration = None,
                       battery_level = None, connection_quality = None\<rparr>
           | Some st \<Rightarrow> st))"

text \<open>
  The callback of \<open>securityAlerts.some\<close>, with \<open>now\<close> the clock it reads:
  \<open>timeDiff = (now - alertTime) / 1000\<close> is NaN for an Invalid Date, and then
  \<open>timeDiff < 60\<close> is false.
\<close>

definition recentCritical :: "int \<Rightarrow> alert \<Rightarrow> bool" where
  "recentCritical now a =
     (severity a = ''critical'' \<and>
      (case alert.timestamp a of
         None \<Rightarrow> False
       | Some alertTime \<Rightarrow> real_of_int (now - alertTime) / 1000 < 60))"

text \<open>
  \<open>Array.prototype.some\<close> calls the callback on the alerts in order and stops at the first
  hit. Each call reads the clock anew: \<open>clock i\<close> is the reading of the call on the alert
  at index \<open>i\<close>.
\<close>

fun someRecentCritical :: "(nat \<Rightarrow> int) \<Rightarrow> nat \<Rightarrow> alert list \<Rightarrow> bool" where
  "someRecentCritical clock i [] = False"
| "someRecentCritical clock i (a # as) =
     (if recentCritical (clock i) a then True else someRecentCritical clock (Suc i) as)"

definition hasRecentCriticalAlert :: "(nat \<Rightarrow> int) \<Rightarrow> state \<Rightarrow> bool" where
  "hasRecentCriticalAlert clock s = someRecentCritical clock 0 (securityAlerts s)"

text \<open>
  What \<open>renderDeviceStatus\<close> computes before it builds the panel: \<open>isAttacked\<close>, which
  picks the label, and the number of the "Attack duration" line
  (\<open>status.attack_duration || 0\<close>), which is rendered only under attack.
\<close>

record panel =
  isAttacked :: bool
  label :: string
  attackDuration :: "real option"

definition renderDeviceStatus :: "(nat \<Rightarrow> int) \<Rightarrow> state \<Rightarrow> panel" where
  "renderDeviceStatus clock s =
     (let status = getDeviceStatus s;
          attacked = (under_attack status \<or> hasRecentCriticalAlert clock s)
      in \<lparr>isAttacked = attacked,
          label = (if attacked then ''UNDER ATTACK'' else ''SECURE''),
          attackDuration =
            (if attacked
             then Some (case attack_duration status of None \<Rightarrow> 0 | Some d \<Rightarrow> d)
             else None)\<rparr>)"

subsection \<open>The first render\<close>

text \<open>The initial values of the state hooks.\<close>

definition initialState :: state where
  "initialState =
     \<lparr>devices = [], selectedDevice = None, deviceData = [], securityAlerts = [],
      loading = True, error = None, refreshInterval = 5, isRefreshing = True\<rparr>"

section \<open>Properties\<close>

subsection \<open>Colour bands\<close>

text \<open>
  C3. \<open>getColor 0\<close> is fully transparent (alpha 0). For \<open>0 < v < 10\<close> the result is the
  blue band with alpha \<open>v / 20\<close>, so \<open>getColor 9.99\<close> is blue. The band bounds are inclusive
  below and exclusive above: \<open>getColor 10\<close> already follows the green-ramp formula
  \<open>rgba(0, 255 - (v - 10) * 8, 255, 0.5)\<close> of the band \<open>10 \<le> v < 30\<close>. Every \<open>v \<ge> 80\<close> gives
  the same solid red, so \<open>getColor 100 = getColor 80\<close>.
\<close>

theorem getColor_band_boundaries:
  "getColor 0 = RGBA 0 0 0 0
   \<and> alpha (getColor 0) = 0
   \<and> (\<forall>v. 0 < v \<and> v < 10 \<longrightarrow> getColor v = RGBA 0 0 255 (v / 20))
   \<and> getColor 9.99 = RGBA 0 0 255 (9.99 / 20)
   \<and> (\<forall>v. 10 \<le> v \<and> v < 30 \<longrightarrow> getColor v = RGBA 0 (255 - (v - 10) * 8) 255 0.5)
   \<and> getColor 10 = RGBA 0 255 255 0.5
   \<and> (\<forall>v. 80 \<le> v \<longrightarrow> getColor v = RGBA 255 0 0 0.8)
   \<and> getColor 100 = getColor 80"
  by (simp add: getColor_def)

theorem getColor_band_boundaries_witness:
  "getColor 5 = RGBA 0 0 255 (5 / 20)
   \<and> getColor 20 = RGBA 0 175 255 0.5
   \<and> getColor 90 = RGBA 255 0 0 0.8"
proof -
  note b = getColor_band_boundaries
  have blue: "getColor 5 = RGBA 0 0 255 (5 / 20)"
    using b by (elim conjE allE [of _ "5::real"]) simp
  have ramp: "getColor 20 = RGBA 0 (255 - (20 - 10) * 8) 255 0.5"
    using b by (elim conjE allE [of _ "20::real"]) simp
  have solid: "getColor 90 = RGBA 255 0 0 0.8"
    using b by (elim conjE allE [of _ "90::real"]) simp
  from blue ramp solid show ?thesis by simp
qed

text \<open>
  C4, as the source has it. For \<open>30 \<le> v < 60\<close> the result is
  \<open>rgba((v - 30) * 8, 255, 255 - (v - 30) * 8, 0.6)\<close>: the red channel ramps up, the green
  channel stays at 255, the blue channel ramps down, and alpha is 0.6.
\<close>

theorem getColor_band_30_60:
  "(\<forall>v. 30 \<le> v \<and> v < 60 \<longrightarrow>
      getColor v = RGBA ((v - 30) * 8) 255 (255 - (v - 30) * 8) 0.6)
   \<and> (\<forall>v w. 30 \<le> v \<and> v < w \<and> w < 60 \<longrightarrow>
        red (getColor v) < red (getColor w)
        \<and> green (getColor v) = 255 \<and> green (getColor w) = 255
        \<and> blue (getColor w) < blue (getColor v)
        \<and> alpha (getColor v) = 0.6 \<and> alpha (getColor w) = 0.6)"
  by (simp add: getColor_def)

theorem getColor_band_30_60_witness:
  "getColor 45 = RGBA 120 255 135 0.6
   \<and> red (getColor 30) < red (getColor 45)
   \<and> blue (getColor 45) < blue (getColor 30)"
proof -
  note b = getColor_band_30_60
  have at45: "getColor 45 = RGBA ((45 - 30) * 8) 255 (255 - (45 - 30) * 8) 0.6"
    using b by (elim conjE allE [of _ "45::real"]) simp
  have ramps: "red (getColor 30) < red (getColor 45) \<and> blue (getColor 45) < blue (getColor 30)"
    using b by (elim conjE allE [of _ "30::real"] allE [of _ "45::real"]) simp
  from at45 ramps show ?thesis by simp
qed

text \<open>
  The green channel does not ramp down on \<open>30 \<le> v < 60\<close>: it is 255 at both ends of the
  band.
\<close>

theorem getColor_green_ramp_counterexample:
  "green (getColor 30) = 255 \<and> green (getColor 59) = 255
   \<and> \<not> green (getColor 59) < green (getColor 30)"
  by (simp add: getColor_def)

subsection \<open>The attack verdict\<close>

text \<open>\<open>some\<close> finds a hit exactly when the alert at some index is one, at the clock read there.\<close>

lemma someRecentCritical_iff:
  "someRecentCritical clock k as = (\<exists>i<length as. recentCritical (clock (k + i)) (as ! i))"
proof (induction as arbitrary: k)
  case Nil
  show ?case by simp
next
  case (Cons a as)
  have "(\<exists>i<Suc (length as). recentCritical (clock (k + i)) ((a # as) ! i)) =
        (recentCritical (clock k) a \<or> (\<exists>i<length as. recentCritical (clock (Suc k + i)) (as ! i)))"
    by (auto simp: less_Suc_eq_0_disj)
  with Cons show ?case by simp
qed

text \<open>
  C1. For every state, that is for every latest sample (or none) and every alert list,
  \<open>isAttacked\<close> holds iff the latest sample's \<open>under_attack\<close> flag is true or some alert has
  severity \<open>critical\<close> and \<open>(now - timestamp) / 1000 < 60\<close>, with \<open>now\<close> the clock read when
  that alert is examined; it is false otherwise. The latest sample is the last element of
  the telemetry state; with no sample, or a sample without status, the flag counts as
  false. An alert aged exactly 60000 ms is excluded, one aged 59999 ms is included.
\<close>

theorem attack_verdict:
  "isAttacked (renderDeviceStatus clock s) =
     ((case getMostRecentData s of
         None \<Rightarrow> False
       | Some recent \<Rightarrow>
           (case sample.status recent of None \<Rightarrow> False | Some st \<Rightarrow> under_attack st))
      \<or> (\<exists>i<length (securityAlerts s).
            severity (securityAlerts s ! i) = ''critical'' \<and>
            (\<exists>t. alert.timestamp (securityAlerts s ! i) = Some t \<and>
                 real_of_int (clock i - t) / 1000 < 60)))
   \<and> getMostRecentData (s\<lparr>deviceData := []\<rparr>) = None
   \<and> getMostRecentData (s\<lparr>deviceData := earlier @ [latest]\<rparr>) = Some latest
   \<and> \<not> isAttacked (renderDeviceStatus clock
          (s\<lparr>deviceData := [],
             securityAlerts := [a\<lparr>severity := ''critical'',
                                   alert.timestamp := Some (clock 0 - 60000)\<rparr>]\<rparr>))
   \<and> isAttacked (renderDeviceStatus clock
          (s\<lparr>deviceData := [],
             securityAlerts := [a\<lparr>severity := ''critical'',
                                   alert.timestamp := Some (clock 0 - 59999)\<rparr>]\<rparr>))"
proof -
  have crit: "recentCritical now b =
      (severity b = ''critical'' \<and>
       (\<exists>t. alert.timestamp b = Some t \<and> real_of_int (now - t) / 1000 < 60))" for now b
    by (simp add: recentCritical_def split: option.splits)
  have self: "under_attack (getDeviceStatus s) =
      (case getMostRecentData s of
         None \<Rightarrow> False
       | Some recent \<Rightarrow>
           (case sample.status recent of None \<Rightarrow> False | Some st \<Rightarrow> under_attack st))"
    by (simp add: getDeviceStatus_def split: option.splits)
  have main: "isAttacked (renderDeviceStatus clock s) =
      (under_attack (getDeviceStatus s) \<or>
       (\<exists>i<length (securityAlerts s). recentCritical (clock i) (securityAlerts s ! i)))"
    by (simp add: renderDeviceStatus_def Let_def hasRecentCriticalAlert_def
        someRecentCritical_iff)
  have none: "getMostRecentData (s\<lparr>deviceData := []\<rparr>) = None"
    by (simp add: getMostRecentData_def)
  have latest: "getMostRecentData (s\<lparr>deviceData := earlier @ [latest]\<rparr>) = Some latest"
    by (simp add: getMostRecentData_def)
  have excluded: "\<not> isAttacked (renderDeviceStatus clock
          (s\<lparr>deviceData := [],
             securityAlerts := [a\<lparr>severity := ''critical'',
                                   alert.timestamp := Some (clock 0 - 60000)\<rparr>]\<rparr>))"
    by (simp add: renderDeviceStatus_def Let_def hasRecentCriticalAlert_def
        getDeviceStatus_def getMostRecentData_def recentCritical_def)
  have included: "isAttacked (renderDeviceStatus clock
          (s\<lparr>deviceData := [],
             securityAlerts := [a\<lparr>severity := ''critical'',
                                   alert.timestamp := Some (clock 0 - 59999)\<rparr>]\<rparr>))"
    by (simp add: renderDeviceStatus_def Let_def hasRecentCriticalAlert_def
        getDeviceStatus_def getMostRecentData_def recentCritical_def)
  from main self crit none latest excluded included show ?thesis by simp
qed

theorem attack_verdict_witness:
  "isAttacked (renderDeviceStatus (\<lambda>i. 100000)
     (initialState\<lparr>deviceData := [fallbackSample ''m1'' 0],
                    securityAlerts := [fallbackAlert 90000]\<rparr>))
   \<and> \<not> isAttacked (renderDeviceStatus (\<lambda>i. 100000)
     (initialState\<lparr>deviceData := [fallbackSample ''m1'' 0],
                    securityAlerts := [fallbackAlert 40000]\<rparr>))"
proof -
  let ?s = "\<lambda>t. initialState\<lparr>deviceData := [fallbackSample ''m1'' 0],
                    securityAlerts := [fallbackAlert t]\<rparr>"
  have a: "isAttacked (renderDeviceStatus (\<lambda>i. 100000) (?s 90000))"
    using attack_verdict [of "\<lambda>i. 100000" "?s 90000"]
    by (simp add: fallbackAlert_def)
  have b: "\<not> isAttacked (renderDeviceStatus (\<lambda>i. 100000) (?s 40000))"
    using attack_verdict [of "\<lambda>i. 100000" "?s 40000"]
    by (simp add: fallbackAlert_def fallbackSample_def getMostRecentData_def)
  from a b show ?thesis by simp
qed

subsection \<open>Fallback data\<close>

text \<open>
  C9, as the source has it. \<open>fetchDeviceData\<close> always returns a state, the one it found
  with only the telemetry replaced. When its \<open>try\<close> block throws, that is when the helper's
  promise is rejected (the way a failed request reaches the page) or resolves to
  \<open>null\<close>/\<open>undefined\<close>, the telemetry becomes exactly one locally built sample, whose status
  has \<open>under_attack = false\<close> and \<open>attack_duration = 0\<close>. A response that resolves to an
  object without a \<open>data\<close> array does not throw: \<open>result.data || []\<close> empties the telemetry
  and no sample is built.
\<close>

theorem telemetry_failure_fallback:
  "fetchDeviceData deviceId now r s =
     s\<lparr>deviceData :=
         (case r of
            Rejected \<Rightarrow> [fallbackSample deviceId now]
          | Resolved Nullish \<Rightarrow> [fallbackSample deviceId now]
          | Resolved (Object None) \<Rightarrow> []
          | Resolved (Object (Some dat)) \<Rightarrow> dat)\<rparr>
   \<and> throws r = (r = Rejected \<or> r = Resolved Nullish)
   \<and> (throws r \<longrightarrow>
        deviceData (fetchDeviceData deviceId now r s) = [fallbackSample deviceId now]
        \<and> length (deviceData (fetchDeviceData deviceId now r s)) = 1
        \<and> getMostRecentData (fetchDeviceData deviceId now r s) =
            Some (fallbackSample deviceId now)
        \<and> under_attack (getDeviceStatus (fetchDeviceData deviceId now r s)) = False
        \<and> attack_duration (getDeviceStatus (fetchDeviceData deviceId now r s)) = Some 0)
   \<and> deviceData (fetchDeviceData deviceId now (Resolved (Object None)) s) = []
   \<and> getMostRecentData (fetchDeviceData deviceId now (Resolved (Object None)) s) = None"
proof -
  have step: "fetchDeviceData deviceId now r s =
     s\<lparr>deviceData :=
         (case r of
            Rejected \<Rightarrow> [fallbackSample deviceId now]
          | Resolved Nullish \<Rightarrow> [fallbackSample deviceId now]
          | Resolved (Object None) \<Rightarrow> []
          | Resolved (Object (Some dat)) \<Rightarrow> dat)\<rparr>"
    by (simp add: fetchDeviceData_def split: settled.splits body.splits option.splits)
  have thr: "throws r = (r = Rejected \<or> r = Resolved Nullish)"
    by (cases r rule: throws.cases) simp_all
  have st: "getDeviceStatus (s\<lparr>deviceData := [fallbackSample deviceId now]\<rparr>) =
      \<lparr>under_attack = False, attack_duration = Some 0,
       battery_level = Some 85, connection_quality = Some 95\<rparr>"
    by (simp add: getDeviceStatus_def getMostRecentData_def fallbackSample_def)
  have recent: "getMostRecentData (s\<lparr>deviceData := [fallbackSample deviceId now]\<rparr>) =
      Some (fallbackSample deviceId now)"
    by (simp add: getMostRecentData_def)
  have caught: "fetchDeviceData deviceId now r s =
      s\<lparr>deviceData := [fallbackSample deviceId now]\<rparr>" if "throws r"
    using that thr by (auto simp: fetchDeviceData_def)
  have fallback: "throws r \<longrightarrow>
        deviceData (fetchDeviceData deviceId now r s) = [fallbackSample deviceId now]
        \<and> length (deviceData (fetchDeviceData deviceId now r s)) = 1
        \<and> getMostRecentData (fetchDeviceData deviceId now r s) =
            Some (fallbackSample deviceId now)
        \<and> under_attack (getDeviceStatus (fetchDeviceData deviceId now r s)) = False
        \<and> attack_duration (getDeviceStatus (fetchDeviceData deviceId now r s)) = Some 0"
    by (simp add: caught st recent)
  have emptied: "deviceData (fetchDeviceData deviceId now (Resolved (Object None)) s) = []
      \<and> getMostRecentData (fetchDeviceData deviceId now (Resolved (Object None)) s) = None"
    by (simp add: fetchDeviceData_def getMostRecentData_def)
  from step thr fallback emptied show ?thesis by blast
qed

theorem telemetry_failure_fallback_witness:
  "throws (Rejected :: sample settled)
   \<and> deviceData (fetchDeviceData ''m1'' 1000 Rejected initialState) = [fallbackSample ''m1'' 1000]
   \<and> under_attack (getDeviceStatus (fetchDeviceData ''m1'' 1000 Rejected initialState)) = False
   \<and> attack_duration (getDeviceStatus (fetchDeviceData ''m1'' 1000 Rejected initialState)) = Some 0"
proof -
  have h: "throws (Rejected :: sample settled)" by simp
  show ?thesis
    using h telemetry_failure_fallback [of "''m1''" 1000 Rejected initialState] by blast
qed

text \<open>
  A response whose body decodes to an object with no \<open>data\<close> array is malformed, yet it
  takes the \<open>try\<close> path: the telemetry delivered by the cycle before is emptied and no
  fallback sample is put in its place.
\<close>

theorem malformed_response_no_fallback_counterexample:
  "deviceData
     (fetchDeviceData ''m1'' 1000 (Resolved (Object (Some [fallbackSample ''m1'' 500])))
        initialState) = [fallbackSample ''m1'' 500]
   \<and> deviceData
     (fetchDeviceData ''m1'' 2000 (Resolved (Object None))
        (fetchDeviceData ''m1'' 1000 (Resolved (Object (Some [fallbackSample ''m1'' 500])))
           initialState)) = []
   \<and> length (deviceData
     (fetchDeviceData ''m1'' 2000 (Resolved (Object None))
        (fetchDeviceData ''m1'' 1000 (Resolved (Object (Some [fallbackSample ''m1'' 500])))
           initialState))) = 0
   \<and> \<not> throws (Resolved (Object None) :: sample settled)"
  by (simp add: fetchDeviceData_def)

text \<open>
  C10. If both fetches of a cycle fail, in either order of arrival, and the panel is
  rendered less than 60 seconds after the alert fallback was stamped, the verdict is
  under attack with attack duration 0: the fallback alert is \<open>critical\<close> and stamped with
  the failure time, and it overrides the fallback sample's \<open>under_attack = false\<close>.
\<close>

theorem both_fallbacks_under_attack:
  "throws r1 \<Longrightarrow> throws r2 \<Longrightarrow> clock 0 - t2 < 60000 \<Longrightarrow>
     renderDeviceStatus clock
        (fetchSecurityAlerts deviceId t2 r2 (fetchDeviceData deviceId t1 r1 s)) =
       \<lparr>isAttacked = True, label = ''UNDER ATTACK'', attackDuration = Some 0\<rparr>
     \<and> renderDeviceStatus clock
        (fetchDeviceData deviceId t1 r1 (fetchSecurityAlerts deviceId t2 r2 s)) =
       \<lparr>isAttacked = True, label = ''UNDER ATTACK'', attackDuration = Some 0\<rparr>
     \<and> severity (fallbackAlert t2) = ''critical''
     \<and> alert.timestamp (fallbackAlert t2) = Some t2
     \<and> under_attack (getDeviceStatus (fetchDeviceData deviceId t1 r1 s)) = False"
proof -
  assume t1: "throws r1" and t2: "throws r2" and near: "clock 0 - t2 < 60000"
  have d: "fetchDeviceData deviceId t1 r1 u = u\<lparr>deviceData := [fallbackSample deviceId t1]\<rparr>" for u
    using t1 by (cases r1 rule: throws.cases) (simp_all add: fetchDeviceData_def)
  have a: "fetchSecurityAlerts deviceId t2 r2 u = u\<lparr>securityAlerts := [fallbackAlert t2]\<rparr>" for u
    using t2 by (cases r2 rule: throws.cases) (simp_all add: fetchSecurityAlerts_def)
  have hit: "recentCritical (clock 0) (fallbackAlert t2)"
    using near by (simp add: recentCritical_def fallbackAlert_def)
  have st: "getDeviceStatus (u\<lparr>deviceData := [fallbackSample deviceId t1]\<rparr>) =
      \<lparr>under_attack = False, attack_duration = Some 0,
       battery_level = Some 85, connection_quality = Some 95\<rparr>" for u :: state
    by (simp add: getDeviceStatus_def getMostRecentData_def fallbackSample_def)
  have st': "getDeviceStatus (u\<lparr>deviceData := [fallbackSample deviceId t1],
                                securityAlerts := al\<rparr>) =
      \<lparr>under_attack = False, attack_duration = Some 0,
       battery_level = Some 85, connection_quality = Some 95\<rparr>" for u :: state and al
    by (simp add: getDeviceStatus_def getMostRecentData_def fallbackSample_def)
  have one: "renderDeviceStatus clock
        (fetchSecurityAlerts deviceId t2 r2 (fetchDeviceData deviceId t1 r1 s)) =
       \<lparr>isAttacked = True, label = ''UNDER ATTACK'', attackDuration = Some 0\<rparr>"
    using hit by (simp add: d a renderDeviceStatus_def Let_def hasRecentCriticalAlert_def st')
  have two: "renderDeviceStatus clock
        (fetchDeviceData deviceId t1 r1 (fetchSecurityAlerts deviceId t2 r2 s)) =
       \<lparr>isAttacked = True, label = ''UNDER ATTACK'', attackDuration = Some 0\<rparr>"
    using hit by (simp add: d a renderDeviceStatus_def Let_def hasRecentCriticalAlert_def st)
  have three: "under_attack (getDeviceStatus (fetchDeviceData deviceId t1 r1 s)) = False"
    by (simp add: d st)
  from one two three show ?thesis by (simp add: fallbackAlert_def)
qed

theorem both_fallbacks_under_attack_witness:
  "throws (Rejected :: sample settled) \<and> throws (Rejected :: alert settled)
   \<and> (5250::int) - 5000 < 60000
   \<and> renderDeviceStatus (\<lambda>i. 5250)
        (fetchSecurityAlerts ''m1'' 5000 Rejected (fetchDeviceData ''m1'' 4990 Rejected initialState)) =
       \<lparr>isAttacked = True, label = ''UNDER ATTACK'', attackDuration = Some 0\<rparr>"
proof -
  have h1: "throws (Rejected :: sample settled)" by simp
  have h2: "throws (Rejected :: alert settled)" by simp
  have h3: "(\<lambda>i::nat. (5250::int)) 0 - 5000 < 60000" by simp
  show ?thesis
    using h1 h2 both_fallbacks_under_attack [OF h1 h2 h3, of "''m1''" 4990 initialState]
    by simp
qed

subsection \<open>Catalog normalisation\<close>

text \<open>
  \<open>includes\<close> is the contiguous-sublist relation. Appending \<open>" Sensor"\<close> makes the name
  contain \<open>Sensor\<close> and changes nothing about \<open>Mouse\<close>, \<open>Keyboard\<close> or \<open>Headset\<close>: none of
  them has a blank, and none occurs in \<open>Sensor\<close>.
\<close>

lemma str_includes_sublist: "str_includes s sub = sublist sub s"
  by (induction s) (auto simp: sublist_Cons_right)

lemma sublist_append_separator:
  assumes "c \<notin> set w"
  shows "sublist w (xs @ c # zs) = (sublist w xs \<or> sublist w zs)"
proof -
  have straddle: "sublist w xs" if "w = w1 @ w2" "suffix w1 xs" "prefix w2 (c # zs)" for w1 w2
  proof (cases w2)
    case Nil
    with that show ?thesis by simp
  next
    case (Cons a w2')
    with that(3) have "a = c" by simp
    with Cons that(1) assms show ?thesis by simp
  qed
  have tail: "sublist w (c # zs) = sublist w zs"
  proof (cases w)
    case Nil
    then show ?thesis by simp
  next
    case (Cons a w')
    with assms have "\<not> prefix w (c # zs)" by auto
    then show ?thesis by (simp add: sublist_Cons_right)
  qed
  show ?thesis
    unfolding sublist_append tail using straddle by blast
qed

lemma str_includes_Sensor_appended [simp]:
  "str_includes (n @ '' Sensor'') ''Sensor''"
  unfolding str_includes_sublist by (rule suffix_imp_sublist) (simp add: suffix_def)

lemma str_includes_keyword_appended:
  "str_includes (n @ '' Sensor'') ''Mouse'' = str_includes n ''Mouse''"
  "str_includes (n @ '' Sensor'') ''Keyboard'' = str_includes n ''Keyboard''"
  "str_includes (n @ '' Sensor'') ''Headset'' = str_includes n ''Headset''"
proof -
  have no: "\<not> str_includes ''Sensor'' ''Mouse''" "\<not> str_includes ''Sensor'' ''Keyboard''"
    "\<not> str_includes ''Sensor'' ''Headset''"
    by simp_all
  have sep: "str_includes (n @ CHR '' '' # ''Sensor'') w =
      (str_includes n w \<or> str_includes ''Sensor'' w)" if "CHR '' '' \<notin> set w" for w
    unfolding str_includes_sublist using that by (rule sublist_append_separator)
  show "str_includes (n @ '' Sensor'') ''Mouse'' = str_includes n ''Mouse''"
    using sep [of "''Mouse''"] no(1) by simp
  show "str_includes (n @ '' Sensor'') ''Keyboard'' = str_includes n ''Keyboard''"
    using sep [of "''Keyboard''"] no(2) by simp
  show "str_includes (n @ '' Sensor'') ''Headset'' = str_includes n ''Headset''"
    using sep [of "''Headset''"] no(3) by simp
qed

text \<open>\<open>renameDevice\<close> branch by branch, and the devices it leaves as they are.\<close>

lemma sensorName_includes:
  "str_includes (sensorName n) ''Sensor''"
  "str_includes (sensorName n) ''Mouse'' = str_includes n ''Mouse''"
  "str_includes (sensorName n) ''Keyboard'' = str_includes n ''Keyboard''"
  "str_includes (sensorName n) ''Headset'' = str_includes n ''Headset''"
  "sensorName (sensorName n) = sensorName n"
  by (simp_all add: sensorName_def str_includes_keyword_appended)

lemma renameDevice_mouse:
  "device_type d = ''mouse'' \<or> str_includes (name d) ''Mouse'' \<Longrightarrow>
   renameDevice d = d\<lparr>name := sensorName (name d),
     device_type := (if device_type d = ''mouse'' then ''mouse_sensor'' else device_type d)\<rparr>"
  unfolding renameDevice_def sensorName_def by (simp only: if_True)

lemma renameDevice_keyboard:
  "\<not> (device_type d = ''mouse'' \<or> str_includes (name d) ''Mouse'') \<Longrightarrow>
   device_type d = ''keyboard'' \<or> str_includes (name d) ''Keyboard'' \<Longrightarrow>
   renameDevice d = d\<lparr>name := sensorName (name d),
     device_type := (if device_type d = ''keyboard'' then ''keyboard_sensor'' else device_type d)\<rparr>"
  unfolding renameDevice_def sensorName_def by (simp only: if_True if_False)

lemma renameDevice_headset:
  "\<not> (device_type d = ''mouse'' \<or> str_includes (name d) ''Mouse'') \<Longrightarrow>
   \<not> (device_type d = ''keyboard'' \<or> str_includes (name d) ''Keyboard'') \<Longrightarrow>
   device_type d = ''headset'' \<or> str_includes (name d) ''Headset'' \<Longrightarrow>
   renameDevice d = d\<lparr>name := sensorName (name d),
     device_type := (if device_type d = ''headset'' then ''headset_sensor'' else device_type d)\<rparr>"
  unfolding renameDevice_def sensorName_def by (simp only: if_True if_False)

lemma renameDevice_other:
  "\<not> (device_type d = ''mouse'' \<or> str_includes (name d) ''Mouse'') \<Longrightarrow>
   \<not> (device_type d = ''keyboard'' \<or> str_includes (name d) ''Keyboard'') \<Longrightarrow>
   \<not> (device_type d = ''headset'' \<or> str_includes (name d) ''Headset'') \<Longrightarrow>
   renameDevice d = d"
  unfolding renameDevice_def by (simp only: if_False)

lemma renameDevice_fixed:
  assumes "str_includes (name x) ''Sensor''"
    and "device_type x \<noteq> ''mouse''"
    and "device_type x = ''keyboard'' \<Longrightarrow> str_includes (name x) ''Mouse''"
    and "device_type x = ''headset'' \<Longrightarrow>
           str_includes (name x) ''Mouse'' \<or> str_includes (name x) ''Keyboard''"
  shows "renameDevice x = x"
  using assms by (auto simp: renameDevice_def)

lemma renameDevice_idem: "renameDevice (renameDevice d) = renameDevice d"
proof -
  let ?M = "device_type d = ''mouse'' \<or> str_includes (name d) ''Mouse''"
  let ?K = "device_type d = ''keyboard'' \<or> str_includes (name d) ''Keyboard''"
  let ?H = "device_type d = ''headset'' \<or> str_includes (name d) ''Headset''"
  consider (m) ?M | (k) "\<not> ?M" ?K | (h) "\<not> ?M" "\<not> ?K" ?H | (o) "\<not> ?M" "\<not> ?K" "\<not> ?H"
    by blast
  then show ?thesis
  proof cases
    case m
    show ?thesis
      unfolding renameDevice_mouse [OF m]
      by (rule renameDevice_fixed) (use m in \<open>auto simp: sensorName_includes split: if_splits\<close>)
  next
    case k
    show ?thesis
      unfolding renameDevice_keyboard [OF k]
      by (rule renameDevice_fixed) (use k in \<open>auto simp: sensorName_includes split: if_splits\<close>)
  next
    case h
    show ?thesis
      unfolding renameDevice_headset [OF h]
      by (rule renameDevice_fixed) (use h in \<open>auto simp: sensorName_includes split: if_splits\<close>)
  next
    case o
    then show ?thesis by (simp add: renameDevice_other)
  qed
qed

lemma device_type_renameDevice:
  "device_type (renameDevice d) = device_type d \<or>
   device_type (renameDevice d) = ''mouse_sensor'' \<or>
   device_type (renameDevice d) = ''keyboard_sensor'' \<or>
   device_type (renameDevice d) = ''headset_sensor''"
proof -
  let ?M = "device_type d = ''mouse'' \<or> str_includes (name d) ''Mouse''"
  let ?K = "device_type d = ''keyboard'' \<or> str_includes (name d) ''Keyboard''"
  let ?H = "device_type d = ''headset'' \<or> str_includes (name d) ''Headset''"
  consider (m) ?M | (k) "\<not> ?M" ?K | (h) "\<not> ?M" "\<not> ?K" ?H | (o) "\<not> ?M" "\<not> ?K" "\<not> ?H"
    by blast
  then show ?thesis
  proof cases
    case m
    show ?thesis unfolding renameDevice_mouse [OF m] by simp
  next
    case k
    show ?thesis unfolding renameDevice_keyboard [OF k] by simp
  next
    case h
    show ?thesis unfolding renameDevice_headset [OF h] by simp
  next
    case o
    then show ?thesis by (simp add: renameDevice_other)
  qed
qed

lemma renameDevice_recognized:
  assumes "device_type d = ''mouse'' \<or> device_type d = ''keyboard'' \<or>
           device_type d = ''headset'' \<or> device_type d = ''mouse_sensor'' \<or>
           device_type d = ''keyboard_sensor'' \<or> device_type d = ''headset_sensor''"
  shows "device_type (renameDevice d) = ''mouse'' \<or>
         device_type (renameDevice d) = ''keyboard'' \<or>
         device_type (renameDevice d) = ''headset'' \<or>
         device_type (renameDevice d) = ''mouse_sensor'' \<or>
         device_type (renameDevice d) = ''keyboard_sensor'' \<or>
         device_type (renameDevice d) = ''headset_sensor''"
  using assms device_type_renameDevice [of d] by metis

lemma iotDevices_renamedDevices: "iotDevices (renamedDevices raw) = renamedDevices raw"
  unfolding renamedDevices_def
proof (induction raw)
  case Nil
  show ?case by (simp add: iotDevices_def)
next
  case (Cons d raw)
  show ?case
  proof (cases "d \<in> set (iotDevices [d])")
    case True
    then have rec: "device_type d = ''mouse'' \<or> device_type d = ''keyboard'' \<or>
           device_type d = ''headset'' \<or> device_type d = ''mouse_sensor'' \<or>
           device_type d = ''keyboard_sensor'' \<or> device_type d = ''headset_sensor''"
      by (simp add: iotDevices_def split: if_splits)
    from renameDevice_recognized [OF rec] rec Cons show ?thesis
      by (simp add: iotDevices_def)
  next
    case False
    then have "iotDevices (d # raw) = iotDevices raw"
      by (simp add: iotDevices_def split: if_splits)
    with Cons show ?thesis by simp
  qed
qed

text \<open>
  C5, as the source has it. For every device of the filtered list: \<open>" Sensor"\<close> is appended
  to the name exactly when the kind is legacy or the name contains \<open>Mouse\<close>, \<open>Keyboard\<close> or
  \<open>Headset\<close>, and the name does not contain \<open>Sensor\<close> anywhere yet; otherwise the name is
  kept. The kind \<open>mouse\<close> becomes \<open>mouse_sensor\<close>; \<open>keyboard\<close> becomes \<open>keyboard_sensor\<close> when the
  name does not contain \<open>Mouse\<close>; \<open>headset\<close> becomes \<open>headset_sensor\<close> when the name contains
  neither \<open>Mouse\<close> nor \<open>Keyboard\<close>; a sensor-qualified kind is kept. The id and the status
  are kept. The raw device \<open>{client_id: "m1", device_type: "mouse", name: "Mouse"}\<close>
  becomes \<open>mouse_sensor\<close>, \<open>Mouse Sensor\<close>.
\<close>

theorem normalization_by_branch:
  "d \<in> set (iotDevices raw) \<Longrightarrow>
     renameDevice d \<in> set (renamedDevices raw)
     \<and> name (renameDevice d) =
         (if (device_type d = ''mouse'' \<or> device_type d = ''keyboard'' \<or>
              device_type d = ''headset'' \<or> str_includes (name d) ''Mouse'' \<or>
              str_includes (name d) ''Keyboard'' \<or> str_includes (name d) ''Headset'')
             \<and> \<not> str_includes (name d) ''Sensor''
          then name d @ '' Sensor'' else name d)
     \<and> (device_type d = ''mouse'' \<longrightarrow> device_type (renameDevice d) = ''mouse_sensor'')
     \<and> (device_type d = ''keyboard'' \<and> \<not> str_includes (name d) ''Mouse'' \<longrightarrow>
          device_type (renameDevice d) = ''keyboard_sensor'')
     \<and> (device_type d = ''headset'' \<and> \<not> str_includes (name d) ''Mouse''
          \<and> \<not> str_includes (name d) ''Keyboard'' \<longrightarrow>
          device_type (renameDevice d) = ''headset_sensor'')
     \<and> (device_type d = ''mouse_sensor'' \<or> device_type d = ''keyboard_sensor'' \<or>
          device_type d = ''headset_sensor'' \<longrightarrow>
          device_type (renameDevice d) = device_type d)
     \<and> client_id (renameDevice d) = client_id d
     \<and> device.status (renameDevice d) = device.status d
     \<and> renamedDevices
          [\<lparr>client_id = ''m1'', name = ''Mouse'', device_type = ''mouse'', status = st\<rparr>] =
          [\<lparr>client_id = ''m1'', name = ''Mouse Sensor'', device_type = ''mouse_sensor'',
            status = st\<rparr>]"
proof -
  assume d: "d \<in> set (iotDevices raw)"
  let ?M = "device_type d = ''mouse'' \<or> str_includes (name d) ''Mouse''"
  let ?K = "device_type d = ''keyboard'' \<or> str_includes (name d) ''Keyboard''"
  let ?H = "device_type d = ''headset'' \<or> str_includes (name d) ''Headset''"
  have member: "renameDevice d \<in> set (renamedDevices raw)"
    using d by (simp add: renamedDevices_def)
  have example: "renamedDevices
          [\<lparr>client_id = ''m1'', name = ''Mouse'', device_type = ''mouse'', status = st\<rparr>] =
          [\<lparr>client_id = ''m1'', name = ''Mouse Sensor'', device_type = ''mouse_sensor'',
            status = st\<rparr>]"
    by (simp add: renamedDevices_def iotDevices_def renameDevice_def)
  consider (m) ?M | (k) "\<not> ?M" ?K | (h) "\<not> ?M" "\<not> ?K" ?H | (o) "\<not> ?M" "\<not> ?K" "\<not> ?H"
    by blast
  then have fields: "name (renameDevice d) =
         (if (device_type d = ''mouse'' \<or> device_type d = ''keyboard'' \<or>
              device_type d = ''headset'' \<or> str_includes (name d) ''Mouse'' \<or>
              str_includes (name d) ''Keyboard'' \<or> str_includes (name d) ''Headset'')
             \<and> \<not> str_includes (name d) ''Sensor''
          then name d @ '' Sensor'' else name d)
     \<and> (device_type d = ''mouse'' \<longrightarrow> device_type (renameDevice d) = ''mouse_sensor'')
     \<and> (device_type d = ''keyboard'' \<and> \<not> str_includes (name d) ''Mouse'' \<longrightarrow>
          device_type (renameDevice d) = ''keyboard_sensor'')
     \<and> (device_type d = ''headset'' \<and> \<not> str_includes (name d) ''Mouse''
          \<and> \<not> str_includes (name d) ''Keyboard'' \<longrightarrow>
          device_type (renameDevice d) = ''headset_sensor'')
     \<and> (device_type d = ''mouse_sensor'' \<or> device_type d = ''keyboard_sensor'' \<or>
          device_type d = ''headset_sensor'' \<longrightarrow>
          device_type (renameDevice d) = device_type d)
     \<and> client_id (renameDevice d) = client_id d
     \<and> device.status (renameDevice d) = device.status d"
  proof cases
    case m
    show ?thesis
      unfolding renameDevice_mouse [OF m] using m by (auto simp: sensorName_def)
  next
    case k
    show ?thesis
      unfolding renameDevice_keyboard [OF k] using k by (auto simp: sensorName_def)
  next
    case h
    show ?thesis
      unfolding renameDevice_headset [OF h] using h by (auto simp: sensorName_def)
  next
    case o
    then show ?thesis by (auto simp: renameDevice_other)
  qed
  from member fields example show ?thesis by blast
qed

theorem normalization_by_branch_witness:
  "\<lparr>client_id = ''k1'', name = ''Keyboard'', device_type = ''keyboard'', status = ''active''\<rparr>
     \<in> set (iotDevices
         [\<lparr>client_id = ''x0'', name = ''Webcam'', device_type = ''camera'', status = ''active''\<rparr>,
          \<lparr>client_id = ''k1'', name = ''Keyboard'', device_type = ''keyboard'', status = ''active''\<rparr>])
   \<and> name (renameDevice
        \<lparr>client_id = ''k1'', name = ''Keyboard'', device_type = ''keyboard'', status = ''active''\<rparr>)
       = ''Keyboard Sensor''
   \<and> device_type (renameDevice
        \<lparr>client_id = ''k1'', name = ''Keyboard'', device_type = ''keyboard'', status = ''active''\<rparr>)
       = ''keyboard_sensor''"
proof -
  let ?k = "\<lparr>client_id = ''k1'', name = ''Keyboard'', device_type = ''keyboard'', status = ''active''\<rparr>"
  let ?raw = "[\<lparr>client_id = ''x0'', name = ''Webcam'', device_type = ''camera'', status = ''active''\<rparr>, ?k]"
  have h: "?k \<in> set (iotDevices ?raw)"
    by (simp add: iotDevices_def)
  from normalization_by_branch [OF h]
  have "name (renameDevice ?k) = ''Keyboard Sensor''"
    and "device_type (renameDevice ?k) = ''keyboard_sensor''"
    by simp_all
  with h show ?thesis by simp
qed

text \<open>
  A device of the filtered list whose kind is sensor-qualified and whose name has none of
  the three words falls through to \<open>return device\<close>: its name does not contain
  \<open>" Sensor"\<close>, and none is appended.
\<close>

theorem suffix_not_appended_counterexample:
  "\<lparr>client_id = ''m2'', name = ''Razer Viper'', device_type = ''mouse_sensor'', status = ''active''\<rparr>
     \<in> set (iotDevices
         [\<lparr>client_id = ''m2'', name = ''Razer Viper'', device_type = ''mouse_sensor'',
           status = ''active''\<rparr>])
   \<and> \<not> str_includes ''Razer Viper'' '' Sensor''
   \<and> name (renameDevice
        \<lparr>client_id = ''m2'', name = ''Razer Viper'', device_type = ''mouse_sensor'',
          status = ''active''\<rparr>) = ''Razer Viper''
   \<and> renamedDevices
        [\<lparr>client_id = ''m2'', name = ''Razer Viper'', device_type = ''mouse_sensor'',
          status = ''active''\<rparr>] =
        [\<lparr>client_id = ''m2'', name = ''Razer Viper'', device_type = ''mouse_sensor'',
          status = ''active''\<rparr>]"
  by (simp add: renamedDevices_def iotDevices_def renameDevice_def)

text \<open>
  The branches test the name as well as the kind, in the order mouse, keyboard, headset:
  a legacy keyboard whose name contains \<open>Mouse\<close> leaves through the mouse branch, which
  only rewrites the kind \<open>mouse\<close>.
\<close>

lemma legacy_kind_kept_behind_name_test:
  "renamedDevices
     [\<lparr>client_id = ''k2'', name = ''Keyboard and Mouse Set'', device_type = ''keyboard'',
       status = ''active''\<rparr>] =
     [\<lparr>client_id = ''k2'', name = ''Keyboard and Mouse Set Sensor'', device_type = ''keyboard'',
       status = ''active''\<rparr>]"
  by (simp add: renamedDevices_def iotDevices_def renameDevice_def)

text \<open>
  C6. Normalisation is idempotent: filtering and renaming the output of the filter-and-rename
  step gives that output again, for every raw device list.
\<close>

theorem normalization_idempotent:
  "renamedDevices (renamedDevices raw) = renamedDevices raw"
proof -
  have "renamedDevices (renamedDevices raw) = map renameDevice (renamedDevices raw)"
    by (simp add: renamedDevices_def [of "renamedDevices raw"] iotDevices_renamedDevices)
  also have "\<dots> = renamedDevices raw"
    by (simp add: renamedDevices_def renameDevice_idem)
  finally show ?thesis .
qed

theorem normalization_idempotent_witness:
  "renamedDevices (renamedDevices
     [\<lparr>client_id = ''m1'', name = ''Mouse'', device_type = ''mouse'', status = ''active''\<rparr>,
      \<lparr>client_id = ''k2'', name = ''Keyboard and Mouse Set'', device_type = ''keyboard'',
       status = ''active''\<rparr>]) =
   [\<lparr>client_id = ''m1'', name = ''Mouse Sensor'', device_type = ''mouse_sensor'', status = ''active''\<rparr>,
    \<lparr>client_id = ''k2'', name = ''Keyboard and Mouse Set Sensor'', device_type = ''keyboard'',
       status = ''active''\<rparr>]"
  unfolding normalization_idempotent
  by (simp add: renamedDevices_def iotDevices_def renameDevice_def)

text \<open>
  C7, as the source has it. After every catalog refresh the device list is the renamed
  list of the response, or the two fallback devices when the request failed. The selection
  becomes the first device of that list exactly when the selection the request was issued
  under is empty (\<open>null\<close> or \<open>""\<close>) and the list has a device; in every other case, also
  when the selected id is not in the list or the list is empty, it is left as it is.
\<close>

theorem selection_after_refresh:
  "selectedDevice (fetchDevices sel r s) =
     (if falsy sel \<and> devices (fetchDevices sel r s) \<noteq> []
      then Some (client_id (hd (devices (fetchDevices sel r s))))
      else selectedDevice s)
   \<and> devices (fetchDevices sel r s) =
     (case r of Response True (Some raw) \<Rightarrow> renamedDevices raw | _ \<Rightarrow> fallbackDevices)"
  by (simp add: fetchDevices_def fallbackDevices_def
      split: catalog_response.splits bool.splits option.splits list.splits)

theorem selection_after_refresh_witness:
  "selectedDevice
     (fetchDevices None
        (Response True (Some
          [\<lparr>client_id = ''k1'', name = ''Keyboard'', device_type = ''keyboard'', status = ''active''\<rparr>,
           \<lparr>client_id = ''m1'', name = ''Mouse'', device_type = ''mouse'', status = ''active''\<rparr>]))
        initialState) = Some ''k1''
   \<and> selectedDevice (fetchDevices None FetchRejected initialState) = Some ''mouse-001''"
proof -
  let ?raw = "[\<lparr>client_id = ''k1'', name = ''Keyboard'', device_type = ''keyboard'', status = ''active''\<rparr>,
           \<lparr>client_id = ''m1'', name = ''Mouse'', device_type = ''mouse'', status = ''active''\<rparr>]"
  have a: "selectedDevice (fetchDevices None (Response True (Some ?raw)) initialState) = Some ''k1''"
    using selection_after_refresh [of None "Response True (Some ?raw)" initialState]
    by (simp add: falsy_def renamedDevices_def iotDevices_def renameDevice_def)
  have b: "selectedDevice (fetchDevices None FetchRejected initialState) = Some ''mouse-001''"
    using selection_after_refresh [of None FetchRejected initialState]
    by (simp add: falsy_def fallbackDevices_def)
  from a b show ?thesis by simp
qed

text \<open>
  A selected id that is absent from the refreshed list stays selected although a device
  exists, and it stays selected when the refreshed list is empty.
\<close>

theorem selection_kept_counterexample:
  "devices (fetchDevices (Some ''gone'') (Response True (Some [\<lparr>client_id = ''m1'', name = ''Mouse'', device_type = ''mouse'', status = ''active''\<rparr>]))
      (selectDevice ''gone'' initialState))
     = [\<lparr>client_id = ''m1'', name = ''Mouse Sensor'', device_type = ''mouse_sensor'', status = ''active''\<rparr>]
   \<and> selectedDevice (fetchDevices (Some ''gone'') (Response True (Some [\<lparr>client_id = ''m1'', name = ''Mouse'', device_type = ''mouse'', status = ''active''\<rparr>]))
      (selectDevice ''gone'' initialState)) = Some ''gone''
   \<and> devices (fetchDevices (Some ''gone'') (Response True (Some []))
      (selectDevice ''gone'' initialState)) = []
   \<and> selectedDevice (fetchDevices (Some ''gone'') (Response True (Some []))
      (selectDevice ''gone'' initialState)) = Some ''gone''"
  by (simp add: fetchDevices_def renamedDevices_def iotDevices_def renameDevice_def
      selectDevice_def initialState_def falsy_def)

subsection \<open>Responses and the telemetry state\<close>

text \<open>
  C2, as the source has it. A telemetry or alert response is applied to the one telemetry
  or alert state of the page when it arrives, whatever device is selected then: the
  resulting state is fixed by the outcome alone, the device id the request was made for is
  compared with nothing, and changing the selection before the arrival changes nothing
  about what is applied.
\<close>

theorem response_applied_whatever_selected:
  "deviceData (fetchDeviceData deviceId now r s) =
     (case r of
        Resolved (Object (Some dat)) \<Rightarrow> dat
      | Resolved (Object None) \<Rightarrow> []
      | _ \<Rightarrow> [fallbackSample deviceId now])
   \<and> securityAlerts (fetchSecurityAlerts deviceId now q s) =
     (case q of
        Resolved (Object (Some alerts)) \<Rightarrow> alerts
      | Resolved (Object None) \<Rightarrow> []
      | _ \<Rightarrow> [fallbackAlert now])
   \<and> selectedDevice (fetchDeviceData deviceId now r s) = selectedDevice s
   \<and> selectedDevice (fetchSecurityAlerts deviceId now q s) = selectedDevice s
   \<and> fetchDeviceData deviceId now r (selectDevice v s) =
       selectDevice v (fetchDeviceData deviceId now r s)
   \<and> fetchSecurityAlerts deviceId now q (selectDevice v s) =
       selectDevice v (fetchSecurityAlerts deviceId now q s)"
  by (simp add: fetchDeviceData_def fetchSecurityAlerts_def selectDevice_def
      split: settled.splits body.splits option.splits)

text \<open>
  A cycle is started for device \<open>A\<close>, the user selects \<open>B\<close>, then the responses for \<open>A\<close>
  arrive: they replace the empty telemetry and alert state shown for \<open>B\<close>.
\<close>

theorem stale_response_applied_counterexample:
  "selectedDevice
     (fetchDeviceData ''A'' 2000 (Resolved (Object (Some [fallbackSample ''A'' 1000])))
        (selectDevice ''B'' (selectDevice ''A'' initialState))) = Some ''B''
   \<and> deviceData (selectDevice ''B'' (selectDevice ''A'' initialState)) = []
   \<and> deviceData
     (fetchDeviceData ''A'' 2000 (Resolved (Object (Some [fallbackSample ''A'' 1000])))
        (selectDevice ''B'' (selectDevice ''A'' initialState))) = [fallbackSample ''A'' 1000]
   \<and> map device_id (deviceData
     (fetchDeviceData ''A'' 2000 (Resolved (Object (Some [fallbackSample ''A'' 1000])))
        (selectDevice ''B'' (selectDevice ''A'' initialState)))) = [''A'']
   \<and> securityAlerts
     (fetchSecurityAlerts ''A'' 2000 (Resolved (Object (Some [fallbackAlert 1000])))
        (selectDevice ''B'' (selectDevice ''A'' initialState))) = [fallbackAlert 1000]"
  by (simp add: fetchDeviceData_def fetchSecurityAlerts_def selectDevice_def initialState_def
      fallbackSample_def)

text \<open>
  C8, as the source has it. After each successful poll cycle the telemetry state is
  exactly the \<open>data\<close> array of that cycle's response, in the response's order; what
  earlier cycles delivered is replaced, not extended. The latest sample is the last
  element of the latest response.
\<close>

theorem feed_is_latest_response:
  "deviceData (fetchDeviceData deviceId now (Resolved (Object (Some dat))) s) = dat
   \<and> deviceData
       (fold (\<lambda>(now, dat). fetchDeviceData deviceId now (Resolved (Object (Some dat))))
          (cycles @ [(now, dat)]) s) = dat
   \<and> getMostRecentData (fetchDeviceData deviceId now (Resolved (Object (Some (dat @ [x])))) s)
       = Some x"
  by (simp add: fetchDeviceData_def getMostRecentData_def)

text \<open>Two successful cycles with one sample each leave one sample, not two.\<close>

theorem feed_replaced_counterexample:
  "deviceData
     (fetchDeviceData ''m1'' 3000 (Resolved (Object (Some [fallbackSample ''m1'' 2000])))
        (fetchDeviceData ''m1'' 1500 (Resolved (Object (Some [fallbackSample ''m1'' 1000])))
           initialState)) = [fallbackSample ''m1'' 2000]
   \<and> deviceData
     (fetchDeviceData ''m1'' 3000 (Resolved (Object (Some [fallbackSample ''m1'' 2000])))
        (fetchDeviceData ''m1'' 1500 (Resolved (Object (Some [fallbackSample ''m1'' 1000])))
           initialState)) \<noteq> [fallbackSample ''m1'' 1000, fallbackSample ''m1'' 2000]"
  by (simp add: fetchDeviceData_def)

end
